theory Spec2Isabelle
  imports Complex_Main
begin

section \<open>Python values and exceptions\<close>

text \<open>
  The repository is Python over NumPy arrays. Floats are modelled as the real numbers
  they approximate (no rounding, no NaN); the float \<open>inf\<close> that the discretizer uses
  as the initial best entropy is modelled by \<open>None\<close> of an option. Every exception the
  modelled functions can raise on well-typed arguments is a value of \<open>error\<close>;
  a function that can raise returns \<open>error + 'a\<close> with \<open>Inl\<close> for the exception.
\<close>

datatype error =
    KeyError
  | IndexError
  | ValueError string
  | AssertionError string

text \<open>Python's builtin \<open>min\<close> on a list: raises \<open>ValueError\<close> on the empty list.\<close>

definition py_min :: "real list \<Rightarrow> error + real" where
  "py_min xs =
     (case xs of
        [] \<Rightarrow> Inl (ValueError ''min() arg is an empty sequence'')
      | x # rest \<Rightarrow> Inr (fold min rest x))"

text \<open>
  Python's builtin \<open>max(xs, key=f)\<close>: the first element whose key is maximal (a later
  element replaces the current one only when its key is strictly greater); raises
  \<open>ValueError\<close> on an empty iterable.
\<close>

fun max_scan :: "('a \<Rightarrow> real) \<Rightarrow> 'a \<Rightarrow> 'a list \<Rightarrow> 'a" where
  "max_scan f best [] = best"
| "max_scan f best (x # xs) = max_scan f (if f best < f x then x else best) xs"

definition py_max_key :: "('a \<Rightarrow> real) \<Rightarrow> 'a list \<Rightarrow> error + 'a" where
  "py_max_key f xs =
     (case xs of
        [] \<Rightarrow> Inl (ValueError ''max() arg is an empty sequence'')
      | x # rest \<Rightarrow> Inr (max_scan f x rest))"

text \<open>
  A Python \<open>dict\<close> whose iteration order matters is an association list in insertion
  order: assigning to a key that is present replaces the value in place, assigning to a
  new key appends it.
\<close>

fun dict_set :: "('k \<times> 'v) list \<Rightarrow> 'k \<Rightarrow> 'v \<Rightarrow> ('k \<times> 'v) list" where
  "dict_set [] k v = [(k, v)]"
| "dict_set ((k', v') # d) k v = (if k' = k then (k, v) # d else (k', v') # dict_set d k v)"

text \<open>Reading a \<open>defaultdict(lambda: 0)\<close>: a missing key reads as 0.\<close>

definition dict_get0 :: "('k \<times> real) list \<Rightarrow> 'k \<Rightarrow> real" where
  "dict_get0 d k = (case map_of d k of None \<Rightarrow> 0 | Some v \<Rightarrow> v)"

section \<open>Rules (teacher/tree/rule.py)\<close>

record ('f, 'v, 'c) Rule =
  antecedent :: "('f \<times> 'v) list"
  consequent :: 'c
  weight :: real

text \<open>
  The instance membership profile \<open>{feature: {value: degree}}\<close> is a map of maps.
  The list comprehension of \<open>Rule.matching\<close> looks the pairs of the antecedent up in
  order; the first missing feature or value raises \<open>KeyError\<close>.
\<close>

type_synonym ('f, 'v) membership = "'f \<rightharpoonup> ('v \<rightharpoonup> real)"

fun lookup_degrees :: "('f, 'v) membership \<Rightarrow> ('f \<times> 'v) list \<Rightarrow> error + real list" where
  "lookup_degrees im [] = Inr []"
| "lookup_degrees im ((feature, val) # rest) =
     (case im feature of
        None \<Rightarrow> Inl KeyError
      | Some m \<Rightarrow>
          (case m val of
             None \<Rightarrow> Inl KeyError
           | Some d \<Rightarrow>
               (case lookup_degrees im rest of
                  Inl e \<Rightarrow> Inl e
                | Inr ds \<Rightarrow> Inr (d # ds))))"

text \<open>
  \<open>Rule.matching\<close>: the whole expression \<open>t_norm([...])\<close> stands in the \<open>try\<close>, and only
  \<open>KeyError\<close> is caught (\<open>return 0\<close>); any other exception propagates.
\<close>

definition matching ::
  "('f, 'v, 'c) Rule \<Rightarrow> ('f, 'v) membership \<Rightarrow> (real list \<Rightarrow> error + real) \<Rightarrow> error + real" where
  "matching rule im t_norm =
     (case (case lookup_degrees im (antecedent rule) of
              Inl e \<Rightarrow> Inl e
            | Inr ds \<Rightarrow> t_norm ds) of
        Inl KeyError \<Rightarrow> Inr 0
      | Inl e \<Rightarrow> Inl e
      | Inr d \<Rightarrow> Inr d)"

text \<open>Whether a pair of an antecedent can be looked up in a profile, and its degree.\<close>

definition present :: "('f, 'v) membership \<Rightarrow> ('f \<times> 'v) \<Rightarrow> bool" where
  "present im p = (case im (fst p) of None \<Rightarrow> False | Some m \<Rightarrow> m (snd p) \<noteq> None)"

definition degree :: "('f, 'v) membership \<Rightarrow> ('f \<times> 'v) \<Rightarrow> real" where
  "degree im p = (case im (fst p) of None \<Rightarrow> 0 | Some m \<Rightarrow> (case m (snd p) of None \<Rightarrow> 0 | Some d \<Rightarrow> d))"

definition age_profile :: "(string, string) membership" where
  "age_profile = [''age'' \<mapsto> [''young'' \<mapsto> 3 / 10, ''old'' \<mapsto> 7 / 10]]"

text \<open>
  \<open>Rule.weighted_vote\<close>. The loop fills \<open>conse_dict\<close>, a \<open>defaultdict(lambda: 0)\<close>;
  \<open>rule.matching(instance_membership)\<close> is called with the default t-norm and its
  exception, if any, ends the loop. \<open>max(conse_dict, key=...)\<close> runs over the keys in
  insertion order.
\<close>

fun vote_loop ::
  "('f, 'v, 'c) Rule list \<Rightarrow> ('f, 'v) membership \<Rightarrow> ('c \<times> real) list \<Rightarrow> error + ('c \<times> real) list" where
  "vote_loop [] im conse_dict = Inr conse_dict"
| "vote_loop (rule # rest) im conse_dict =
     (case matching rule im py_min of
        Inl e \<Rightarrow> Inl e
      | Inr m \<Rightarrow>
          (let AD = m * weight rule
           in vote_loop rest im
                (dict_set conse_dict (consequent rule)
                   (dict_get0 conse_dict (consequent rule) + AD))))"

definition weighted_vote :: "('f, 'v, 'c) Rule list \<Rightarrow> ('f, 'v) membership \<Rightarrow> error + 'c" where
  "weighted_vote rule_list im =
     (case vote_loop rule_list im [] of
        Inl e \<Rightarrow> Inl e
      | Inr conse_dict \<Rightarrow> py_max_key (\<lambda>conse. dict_get0 conse_dict conse) (map fst conse_dict))"

text \<open>
  The activation of a rule and the accumulated activation of a consequent, as the
  specification words them.
\<close>

definition activation :: "('f, 'v) membership \<Rightarrow> ('f, 'v, 'c) Rule \<Rightarrow> real" where
  "activation im rule = (case matching rule im py_min of Inl e \<Rightarrow> 0 | Inr m \<Rightarrow> m * weight rule)"

definition accumulated :: "('f, 'v) membership \<Rightarrow> ('f, 'v, 'c) Rule list \<Rightarrow> 'c \<Rightarrow> real" where
  "accumulated im rule_list c =
     sum_list (map (activation im) (filter (\<lambda>rule. consequent rule = c) rule_list))"

text \<open>The example of the specification for the weighted vote.\<close>

definition x_profile :: "(string, string) membership" where
  "x_profile = [''x'' \<mapsto> [''lo'' \<mapsto> 9 / 10, ''hi'' \<mapsto> 1 / 10]]"

definition x_rules :: "(string, string, string) Rule list" where
  "x_rules =
     [\<lparr>antecedent = [(''x'', ''lo'')], consequent = ''A'', weight = 1\<rparr>,
      \<lparr>antecedent = [(''x'', ''hi'')], consequent = ''B'', weight = 1\<rparr>]"

subsection \<open>Mapping a rule to other fuzzy variables\<close>

text \<open>
  \<open>Rule.map_rule_variables\<close> reads three attributes of classes that this module does
  not define: \<open>FuzzyVariable.name\<close>, \<open>FuzzyVariable.fuzzy_sets\<close> and, of a fuzzy set,
  \<open>name\<close> and \<open>intersection\<close>. A fuzzy variable is a record of its two attributes; the
  type of fuzzy sets is a parameter \<open>'s\<close>, and the two things read of a fuzzy set are
  the parameters \<open>fs_name\<close> and \<open>intersection\<close> of the model.
\<close>

record ('f, 's) FuzzyVariable =
  name :: 'f
  fuzzy_sets :: "'s list"

text \<open>A dict comprehension \<open>{k: v for ...}\<close>: later pairs overwrite earlier ones.\<close>

definition dict_of :: "('k \<times> 'v) list \<Rightarrow> ('k \<times> 'v) list" where
  "dict_of kvs = fold (\<lambda>kv d. dict_set d (fst kv) (snd kv)) kvs []"

text \<open>Subscripting a dict: \<open>KeyError\<close> on a missing key.\<close>

definition dict_get :: "('k \<times> 'v) list \<Rightarrow> 'k \<Rightarrow> error + 'v" where
  "dict_get d k = (case map_of d k of None \<Rightarrow> Inl KeyError | Some v \<Rightarrow> Inr v)"

fun map_antecedent ::
  "('s \<Rightarrow> 'v) \<Rightarrow> ('s \<Rightarrow> 's \<Rightarrow> real) \<Rightarrow> ('f \<times> 's list) list \<Rightarrow> ('f \<times> 's list) list \<Rightarrow>
   ('f \<times> 'v) list \<Rightarrow> error + ('f \<times> 'v) list" where
  "map_antecedent fs_name intersection origin_dict dest_dict [] = Inr []"
| "map_antecedent fs_name intersection origin_dict dest_dict ((feat, val) # rest) =
     (case dict_get origin_dict feat of
        Inl e \<Rightarrow> Inl e
      | Inr origin_feat \<Rightarrow>
          (case dict_get dest_dict feat of
             Inl e \<Rightarrow> Inl e
           | Inr dest_feat \<Rightarrow>
               (let origin_fuzzy_sets = dict_of (map (\<lambda>fs. (fs_name fs, fs)) origin_feat)
                in case dict_get origin_fuzzy_sets val of
                     Inl e \<Rightarrow> Inl e
                   | Inr origin_fs \<Rightarrow>
                       (case py_max_key (\<lambda>fs. intersection fs origin_fs) dest_feat of
                          Inl e \<Rightarrow> Inl e
                        | Inr dest_fs \<Rightarrow>
                            (case map_antecedent fs_name intersection origin_dict dest_dict rest of
                               Inl e \<Rightarrow> Inl e
                             | Inr new_antecedent \<Rightarrow>
                                 Inr ((feat, fs_name dest_fs) # new_antecedent))))))"

definition map_rule_variables ::
  "('s \<Rightarrow> 'v) \<Rightarrow> ('s \<Rightarrow> 's \<Rightarrow> real) \<Rightarrow> ('f, 'v, 'c) Rule \<Rightarrow>
   ('f, 's) FuzzyVariable list \<Rightarrow> ('f, 's) FuzzyVariable list \<Rightarrow> error + ('f, 'v, 'c) Rule" where
  "map_rule_variables fs_name intersection rule origin_fuzzy_variables dest_fuzzy_variables =
     (let origin_dict = dict_of (map (\<lambda>fv. (name fv, fuzzy_sets fv)) origin_fuzzy_variables);
          dest_dict = dict_of (map (\<lambda>fv. (name fv, fuzzy_sets fv)) dest_fuzzy_variables)
      in if set (map fst origin_dict) \<noteq> set (map fst dest_dict)
         then Inl (ValueError ''The universes of the fuzzy variables are not the same'')
         else (case map_antecedent fs_name intersection origin_dict dest_dict (antecedent rule) of
                 Inl e \<Rightarrow> Inl e
               | Inr new_antecedent \<Rightarrow>
                   Inr \<lparr>antecedent = new_antecedent, consequent = consequent rule,
                        weight = weight rule\<rparr>))"

text \<open>
  What the dicts of \<open>map_rule_variables\<close> hold: for a feature, the fuzzy sets of the
  last variable of that name; for a value, the last fuzzy set of that name.
\<close>

definition sets_of :: "('f, 's) FuzzyVariable list \<Rightarrow> 'f \<Rightarrow> 's list option" where
  "sets_of fvs feat = map_option fuzzy_sets (find (\<lambda>fv. name fv = feat) (rev fvs))"

definition set_named :: "('s \<Rightarrow> 'v) \<Rightarrow> 's list \<Rightarrow> 'v \<Rightarrow> 's option" where
  "set_named fs_name fss val = find (\<lambda>fs. fs_name fs = val) (rev fss)"

text \<open>
  One entry of the new antecedent is right for one entry of the old one: the same
  feature, and the name of a destination set of that feature whose intersection
  with the origin set of the old value is maximal.
\<close>

definition maps_to ::
  "('s \<Rightarrow> 'v) \<Rightarrow> ('s \<Rightarrow> 's \<Rightarrow> real) \<Rightarrow> ('f, 's) FuzzyVariable list \<Rightarrow>
   ('f, 's) FuzzyVariable list \<Rightarrow> ('f \<times> 'v) \<Rightarrow> ('f \<times> 'v) \<Rightarrow> bool" where
  "maps_to fs_name intersection origin dest old new =
     (fst new = fst old \<and>
      (case sets_of origin (fst old) of
         None \<Rightarrow> False
       | Some origin_feat \<Rightarrow>
           (case set_named fs_name origin_feat (snd old) of
              None \<Rightarrow> False
            | Some origin_fs \<Rightarrow>
                (case sets_of dest (fst old) of
                   None \<Rightarrow> False
                 | Some dest_feat \<Rightarrow>
                     list_ex (\<lambda>dest_fs. snd new = fs_name dest_fs \<and>
                         list_all (\<lambda>fs. intersection fs origin_fs \<le> intersection dest_fs origin_fs)
                           dest_feat) dest_feat))))"

text \<open>
  An antecedent can be mapped: each of its features is a variable of the origin with
  a fuzzy set named by the value, and the destination variable of that feature has at
  least one fuzzy set.
\<close>

definition mappable ::
  "('s \<Rightarrow> 'v) \<Rightarrow> ('f, 's) FuzzyVariable list \<Rightarrow> ('f, 's) FuzzyVariable list \<Rightarrow> ('f \<times> 'v) \<Rightarrow> bool" where
  "mappable fs_name origin dest old =
     (case sets_of origin (fst old) of
        None \<Rightarrow> False
      | Some origin_feat \<Rightarrow>
          set_named fs_name origin_feat (snd old) \<noteq> None \<and>
          (case sets_of dest (fst old) of None \<Rightarrow> False | Some dest_feat \<Rightarrow> dest_feat \<noteq> []))"

text \<open>
  A small instance: fuzzy sets are their names, the intersection of two sets is 1 when
  they are the same set and 0 otherwise.
\<close>

definition toy_name :: "string \<Rightarrow> string" where
  "toy_name s = s"

definition toy_intersection :: "string \<Rightarrow> string \<Rightarrow> real" where
  "toy_intersection a b = (if a = b then 1 else 0)"

definition toy_rule :: "(string, string, string) Rule" where
  "toy_rule = \<lparr>antecedent = [(''x'', ''lo'')], consequent = ''A'', weight = 1\<rparr>"

definition toy_origin :: "(string, string) FuzzyVariable list" where
  "toy_origin = [\<lparr>name = ''x'', fuzzy_sets = [''lo'', ''hi'']\<rparr>]"

definition toy_dest :: "(string, string) FuzzyVariable list" where
  "toy_dest = [\<lparr>name = ''x'', fuzzy_sets = [''hi'', ''lo'']\<rparr>]"

definition toy_dest_empty :: "(string, string) FuzzyVariable list" where
  "toy_dest_empty = [\<lparr>name = ''x'', fuzzy_sets = []\<rparr>]"

section \<open>Leaf voting (teacher/tree/\_voting.py)\<close>

text \<open>
  A leaf is a pair of a dict from class keys to weights and the activation of the
  leaf. The inner loop runs over the keys of the leaf's dict and reads the dict at
  the key; the accumulator is a \<open>defaultdict(lambda: 0)\<close>.
\<close>

definition dict_item :: "('k \<times> 'v) list \<Rightarrow> 'k \<Rightarrow> 'v" where
  "dict_item d k = the (map_of d k)"

definition aggregated_vote :: "(('k \<times> real) list \<times> real) list \<Rightarrow> ('k \<times> real) list" where
  "aggregated_vote all_classes =
     fold (\<lambda>leaf agg_vote.
             fold (\<lambda>key agg_vote.
                     dict_set agg_vote key (dict_get0 agg_vote key + dict_item (fst leaf) key * snd leaf))
                  (map fst (fst leaf)) agg_vote)
          all_classes []"

definition maximum_matching :: "(('k \<times> real) list \<times> real) list \<Rightarrow> ('k \<times> real) list" where
  "maximum_matching all_classes =
     fold (\<lambda>leaf max_match.
             fold (\<lambda>key max_match.
                     dict_set max_match key
                       (max (dict_get0 max_match key) (dict_item (fst leaf) key * snd leaf)))
                  (map fst (fst leaf)) max_match)
          all_classes []"

text \<open>
  The keys of all leaves, and the products that the leaves with a given key
  contribute to it, in the order of the leaves.
\<close>

definition contributions :: "(('k \<times> real) list \<times> real) list \<Rightarrow> 'k \<Rightarrow> real list" where
  "contributions all_classes key =
     map (\<lambda>leaf. dict_item (fst leaf) key * snd leaf)
       (filter (\<lambda>leaf. key \<in> fst ` set (fst leaf)) all_classes)"

definition class_keys :: "(('k \<times> real) list \<times> real) list \<Rightarrow> 'k set" where
  "class_keys all_classes = (\<Union>leaf \<in> set all_classes. fst ` set (fst leaf))"

text \<open>The leaves of the example of the specification.\<close>

definition example_leaves :: "((string \<times> real) list \<times> real) list" where
  "example_leaves =
     [([(''A'', 2 / 10), (''B'', 8 / 10)], 1), ([(''A'', 5 / 10), (''B'', 5 / 10)], 5 / 10)]"

section \<open>Properties of dicts\<close>

lemma map_of_dict_set: "map_of (dict_set d k v) = (map_of d)(k \<mapsto> v)"
  by (induction d k v rule: dict_set.induct) auto

lemma dict_get0_dict_set: "dict_get0 (dict_set d k v) k' = (if k' = k then v else dict_get0 d k')"
  by (simp add: dict_get0_def map_of_dict_set)

lemma keys_dict_set: "fst ` set (dict_set d k v) = insert k (fst ` set d)"
  by (induction d k v rule: dict_set.induct) auto

lemma distinct_dict_set: "distinct (map fst d) \<Longrightarrow> distinct (map fst (dict_set d k v))"
proof (induction d k v rule: dict_set.induct)
  case (1 k v) then show ?case by simp
next
  case (2 k' v' d k v)
  then show ?case using keys_dict_set[of d k v] by (auto simp: image_iff)
qed

lemma inner_get0:
  "distinct ks \<Longrightarrow>
   dict_get0 (fold (\<lambda>key acc. dict_set acc key (g (dict_get0 acc key) (h key))) ks acc) k
     = (if k \<in> set ks then g (dict_get0 acc k) (h k) else dict_get0 acc k)"
  by (induction ks arbitrary: acc) (auto simp: dict_get0_dict_set)

lemma inner_keys:
  "fst ` set (fold (\<lambda>key acc. dict_set acc key (g acc key)) ks acc) = fst ` set acc \<union> set ks"
  by (induction ks arbitrary: acc) (auto simp: keys_dict_set)

lemma inner_distinct:
  "distinct (map fst acc) \<Longrightarrow>
   distinct (map fst (fold (\<lambda>key acc. dict_set acc key (g acc key)) ks acc))"
  by (induction ks arbitrary: acc) (auto simp: distinct_dict_set)

section \<open>Properties of leaf voting\<close>

lemma outer_get0:
  assumes "\<forall>leaf \<in> set leaves. distinct (map fst (fst leaf))"
  shows "dict_get0
           (fold (\<lambda>leaf acc.
                    fold (\<lambda>key acc. dict_set acc key (g (dict_get0 acc key) (dict_item (fst leaf) key * snd leaf)))
                      (map fst (fst leaf)) acc) leaves acc) k
         = fold (\<lambda>c a. g a c) (contributions leaves k) (dict_get0 acc k)"
  using assms
proof (induction leaves arbitrary: acc)
  case Nil
  then show ?case by (simp add: contributions_def)
next
  case (Cons leaf leaves)
  have d: "distinct (map fst (fst leaf))" using Cons.prems by simp
  show ?case
    using Cons.prems
    by (simp add: Cons.IH inner_get0 [OF d, where h = "\<lambda>key. dict_item (fst leaf) key * snd leaf"]
        contributions_def)
qed

lemma outer_keys:
  "fst ` set (fold (\<lambda>leaf acc. fold (\<lambda>key acc. dict_set acc key (g leaf acc key)) (map fst (fst leaf)) acc) leaves acc)
     = fst ` set acc \<union> class_keys leaves"
  by (induction leaves arbitrary: acc) (auto simp: inner_keys class_keys_def)

lemma outer_distinct:
  "distinct (map fst acc) \<Longrightarrow>
   distinct (map fst (fold (\<lambda>leaf acc. fold (\<lambda>key acc. dict_set acc key (g leaf acc key)) (map fst (fst leaf)) acc) leaves acc))"
  by (induction leaves arbitrary: acc) (auto simp: inner_distinct)

lemma fold_plus: "fold (\<lambda>c a. a + c) cs (a::real) = a + sum_list cs"
  by (induction cs arbitrary: a) auto

lemma fold_max: "fold (\<lambda>c a. max a c) cs (a::real) = Max (insert a (set cs))"
proof (induction cs arbitrary: a)
  case Nil then show ?case by simp
next
  case (Cons c cs)
  have "Max (insert (max a c) (set cs)) = Max (insert a (insert c (set cs)))"
    by (metis List.finite_set Max_insert Max_singleton finite_insert insert_not_empty max.assoc max.commute)
  then show ?case using Cons by simp
qed

lemma get0_map_of: "k \<in> fst ` set d \<Longrightarrow> map_of d k = Some (dict_get0 d k)"
  by (auto simp: dict_get0_def map_of_eq_None_iff split: option.splits)

lemma not_key_map_of: "k \<notin> fst ` set d \<Longrightarrow> map_of d k = None"
  by (simp add: map_of_eq_None_iff)

lemma aggregated_vote_example:
  "aggregated_vote example_leaves = [(''A'', 45 / 100), (''B'', 105 / 100)]"
  by (simp add: aggregated_vote_def example_leaves_def dict_get0_def dict_item_def)

lemma maximum_matching_example:
  "maximum_matching example_leaves = [(''A'', 25 / 100), (''B'', 8 / 10)]"
  by (simp add: maximum_matching_def example_leaves_def dict_get0_def dict_item_def)

text \<open>
  C9. For leaves whose class-weight dicts have each key once: the aggregated vote
  holds, for exactly the keys of the leaves, the sum over the leaves with that key of
  the class weight times the activation of the leaf; the maximum matching holds, for
  the same keys, the maximum of these products and 0. On the leaves
  \<open>[({'A': 0.2, 'B': 0.8}, 1.0), ({'A': 0.5, 'B': 0.5}, 0.5)]\<close> they are
  \<open>{'A': 0.45, 'B': 1.05}\<close> and \<open>{'A': 0.25, 'B': 0.8}\<close>.
\<close>

theorem leaf_voting:
  assumes "\<forall>leaf \<in> set all_classes. distinct (map fst (fst leaf))"
  shows "map_of (aggregated_vote all_classes) key
           = (if key \<in> class_keys all_classes
              then Some (sum_list (contributions all_classes key)) else None) \<and>
         map_of (maximum_matching all_classes) key
           = (if key \<in> class_keys all_classes
              then Some (Max (insert 0 (set (contributions all_classes key)))) else None) \<and>
         distinct (map fst (aggregated_vote all_classes)) \<and>
         distinct (map fst (maximum_matching all_classes)) \<and>
         aggregated_vote example_leaves = [(''A'', 45 / 100), (''B'', 105 / 100)] \<and>
         maximum_matching example_leaves = [(''A'', 25 / 100), (''B'', 8 / 10)]"
proof -
  have ka: "fst ` set (aggregated_vote all_classes) = class_keys all_classes"
    unfolding aggregated_vote_def
    using outer_keys [of "\<lambda>leaf acc key. dict_get0 acc key + dict_item (fst leaf) key * snd leaf"
        all_classes "[]"] by simp
  have km: "fst ` set (maximum_matching all_classes) = class_keys all_classes"
    unfolding maximum_matching_def
    using outer_keys [of "\<lambda>leaf acc key. max (dict_get0 acc key) (dict_item (fst leaf) key * snd leaf)"
        all_classes "[]"] by simp
  have va: "dict_get0 (aggregated_vote all_classes) key = sum_list (contributions all_classes key)"
    unfolding aggregated_vote_def
    using outer_get0 [OF assms, of "(+)" "[]" key] by (simp add: fold_plus dict_get0_def)
  have vm: "dict_get0 (maximum_matching all_classes) key
              = Max (insert 0 (set (contributions all_classes key)))"
    unfolding maximum_matching_def
    using outer_get0 [OF assms, of max "[]" key] by (simp add: fold_max dict_get0_def)
  have da: "distinct (map fst (aggregated_vote all_classes))"
    unfolding aggregated_vote_def
    using outer_distinct [of "[]" "\<lambda>leaf acc key. dict_get0 acc key + dict_item (fst leaf) key * snd leaf"
        all_classes] by simp
  have dm: "distinct (map fst (maximum_matching all_classes))"
    unfolding maximum_matching_def
    using outer_distinct [of "[]" "\<lambda>leaf acc key. max (dict_get0 acc key) (dict_item (fst leaf) key * snd leaf)"
        all_classes] by simp
  show ?thesis
    using ka km va vm da dm get0_map_of [of key "aggregated_vote all_classes"]
      get0_map_of [of key "maximum_matching all_classes"]
      not_key_map_of [of key "aggregated_vote all_classes"]
      not_key_map_of [of key "maximum_matching all_classes"]
      aggregated_vote_example maximum_matching_example
    by auto
qed

theorem leaf_voting_witness:
  "map_of (aggregated_vote example_leaves) ''B'' = Some (105 / 100) \<and>
   map_of (maximum_matching example_leaves) ''B'' = Some (8 / 10) \<and>
   map_of (aggregated_vote example_leaves) ''C'' = None"
  using leaf_voting [of example_leaves "''B''"] leaf_voting [of example_leaves "''C''"]
  by (simp add: example_leaves_def class_keys_def contributions_def dict_item_def)

section \<open>Properties of rule matching\<close>

lemma py_min_Min: "xs \<noteq> [] \<Longrightarrow> py_min xs = Inr (Min (set xs))"
  by (cases xs) (simp_all add: py_min_def Min.set_eq_fold [symmetric])

lemma lookup_degrees_present:
  "list_all (present im) ps \<Longrightarrow> lookup_degrees im ps = Inr (map (degree im) ps)"
  by (induction ps) (auto simp: present_def degree_def split: option.splits)

lemma lookup_degrees_absent:
  "\<not> list_all (present im) ps \<Longrightarrow> lookup_degrees im ps = Inl KeyError"
  by (induction ps) (auto simp: present_def split: option.splits sum.splits)

text \<open>
  C10. A rule with the empty antecedent: with the default t-norm \<open>min\<close>, matching
  raises the \<open>ValueError\<close> of \<open>min([])\<close> for every profile; the \<open>KeyError\<close> handler
  does not intercept it.
\<close>

theorem matching_empty_antecedent_raises:
  "matching \<lparr>antecedent = [], consequent = c, weight = w\<rparr> im py_min
     = Inl (ValueError ''min() arg is an empty sequence'')"
  by (simp add: matching_def py_min_def)

text \<open>
  C4. For a rule with a non-empty antecedent: when every pair of the antecedent is
  present in the profile, matching returns the t-norm of the looked-up degrees (for
  the default \<open>min\<close>, their minimum); when some pair is absent, matching returns 0 and
  raises nothing, whatever the t-norm.
\<close>

theorem matching_fail_closed:
  assumes "antecedent rule \<noteq> []"
  shows "(list_all (present im) (antecedent rule) \<longrightarrow>
            matching rule im py_min = Inr (Min (degree im ` set (antecedent rule))) \<and>
            (\<forall>d. t_norm (map (degree im) (antecedent rule)) = Inr d \<longrightarrow>
                 matching rule im t_norm = Inr d)) \<and>
         (\<not> list_all (present im) (antecedent rule) \<longrightarrow>
            matching rule im t_norm = Inr 0)"
proof (cases "list_all (present im) (antecedent rule)")
  case True
  then show ?thesis
    using assms by (simp add: matching_def lookup_degrees_present py_min_Min)
next
  case False
  then show ?thesis
    by (simp add: matching_def lookup_degrees_absent)
qed

text \<open>
  The example of the specification: in the profile \<open>{'age': {'young': 0.3, 'old': 0.7}}\<close>
  the antecedent \<open>[('age', 'young')]\<close> matches with degree 0.3 and
  \<open>[('age', 'unknown')]\<close> with degree 0.
\<close>

theorem matching_fail_closed_witness:
  "matching \<lparr>antecedent = [(''age'', ''young'')], consequent = ''A'', weight = 1\<rparr>
      age_profile py_min = Inr (3 / 10) \<and>
   matching \<lparr>antecedent = [(''age'', ''unknown'')], consequent = ''A'', weight = 1\<rparr>
      age_profile py_min = Inr 0"
  using matching_fail_closed
      [of "\<lparr>antecedent = [(''age'', ''young'')], consequent = ''A'', weight = 1\<rparr>"
          age_profile py_min]
    matching_fail_closed
      [of "\<lparr>antecedent = [(''age'', ''unknown'')], consequent = ''A'', weight = 1\<rparr>"
          age_profile py_min]
  by (simp add: present_def degree_def age_profile_def)


end
